theory Spec2Isabelle
  imports Main "HOL-Library.Word" "HOL-Library.Sublist"
begin

section \<open>Data model\<close>

text \<open>
  The application keeps two collections of documents, \<^verbatim>\<open>MusicTrack\<close> and \<^verbatim>\<open>User\<close>
  (\<^verbatim>\<open>models/MusicTrack.js\<close>, \<^verbatim>\<open>models/User.js\<close>). A collection is a list of documents in
  insertion order; every document carries the 12-byte \<^verbatim>\<open>_id\<close> the driver assigned to it.
  The sessions, a third collection that the session store keeps, are modelled further down.
  JavaScript strings are modelled as \<^typ>\<open>string\<close>, one \<^typ>\<open>char\<close> per code unit below 256,
  so that \<^verbatim>\<open>.length\<close> is \<^const>\<open>length\<close>. A request field that may be \<^verbatim>\<open>undefined\<close> is a
  \<^typ>\<open>string option\<close>.
\<close>

type_synonym objectId = "96 word"
type_synonym byte = "8 word"

record musicTrack =
  track_id :: objectId
  name :: string
  artist :: "string option"
  genre :: "string option"
  embedUrl :: string
  createdAt :: nat

text \<open>
  The \<^verbatim>\<open>password\<close> field of a stored user always holds the output of \<^verbatim>\<open>bcrypt.hash\<close>
  (the pre-save hook runs before every insertion). The 60-character text of a bcrypt hash is
  the cost, the salt and the digest in a fixed layout; the model keeps the three parts.
\<close>

record bcryptHash =
  cost :: nat
  salt :: "byte list"
  digest :: "byte list"

record user =
  user_id :: objectId
  username :: string
  password :: bcryptHash
  favorites :: "objectId list"

record db =
  tracks :: "musicTrack list"
  users :: "user list"

text \<open>What a \<^verbatim>\<open>try\<close> block of a route can catch.\<close>

datatype error =
    CastError          \<comment> \<open>a string that is no ObjectId was given where the schema wants one\<close>
  | MongoError nat     \<comment> \<open>a server error with its \<^verbatim>\<open>code\<close>; 11000 is a duplicate key\<close>
  | ValidationError    \<comment> \<open>a \<^verbatim>\<open>required\<close> string of the schema is empty\<close>
  | TypeError          \<comment> \<open>a property of \<^verbatim>\<open>undefined\<close> or \<^verbatim>\<open>null\<close> was read\<close>
  | IllegalArguments   \<comment> \<open>\<^verbatim>\<open>bcrypt.compare\<close> was given something that is no string\<close>

text \<open>What a route answers: a rendered view with its payload, a redirect, or a status with
  a body.\<close>

datatype response =
    Render_register string
  | Render_login string
  | Render_index "musicTrack option" "user option" nat string
  | Render_browse "musicTrack list" "(user \<times> musicTrack list) option"
  | Render_favorites user "musicTrack list"
  | Redirect string
  | Send nat string

section \<open>The store operations the routes call\<close>

text \<open>
  \<^verbatim>\<open>req.params.id\<close> is a string; Mongoose casts it to an ObjectId and throws a
  \<^verbatim>\<open>CastError\<close> when it cannot. Which strings cast is the driver's business, so the cast is
  a parameter \<open>castId\<close> of every operation that takes an id from the request.
\<close>

type_synonym cast = "string \<Rightarrow> objectId option"

fun deleteOne :: "objectId \<Rightarrow> musicTrack list \<Rightarrow> musicTrack list" where
  "deleteOne i [] = []"
| "deleteOne i (t # ts) = (if track_id t = i then ts else t # deleteOne i ts)"

definition findByIdAndDelete :: "cast \<Rightarrow> string \<Rightarrow> db \<Rightarrow> error + db" where
  "findByIdAndDelete castId p s =
     (case castId p of
        None \<Rightarrow> Inl CastError
      | Some i \<Rightarrow> Inr (s\<lparr>tracks := deleteOne i (tracks s)\<rparr>))"

definition pull :: "objectId \<Rightarrow> objectId list \<Rightarrow> objectId list" where
  "pull i favs = filter (\<lambda>x. x \<noteq> i) favs"

definition addToSet :: "objectId \<Rightarrow> objectId list \<Rightarrow> objectId list" where
  "addToSet i favs = (if i \<in> set favs then favs else favs @ [i])"

definition updateMany_pull :: "cast \<Rightarrow> string \<Rightarrow> db \<Rightarrow> error + db" where
  "updateMany_pull castId p s =
     (case castId p of
        None \<Rightarrow> Inl CastError
      | Some i \<Rightarrow> Inr (s\<lparr>users := map (\<lambda>u. u\<lparr>favorites := pull i (favorites u)\<rparr>) (users s)\<rparr>))"

fun updateOne :: "objectId \<Rightarrow> (user \<Rightarrow> user) \<Rightarrow> user list \<Rightarrow> user list" where
  "updateOne i f [] = []"
| "updateOne i f (u # us) = (if user_id u = i then f u # us else u # updateOne i f us)"

definition findByIdAndUpdate ::
  "cast \<Rightarrow> objectId \<Rightarrow> (objectId \<Rightarrow> objectId list \<Rightarrow> objectId list) \<Rightarrow> string \<Rightarrow> db \<Rightarrow> error + db" where
  "findByIdAndUpdate castId uid upd p s =
     (case castId p of
        None \<Rightarrow> Inl CastError
      | Some i \<Rightarrow> Inr (s\<lparr>users := updateOne uid (\<lambda>u. u\<lparr>favorites := upd i (favorites u)\<rparr>) (users s)\<rparr>))"

definition find_all :: "db \<Rightarrow> musicTrack list" where
  "find_all s = tracks s"

definition findTrack :: "objectId \<Rightarrow> db \<Rightarrow> musicTrack option" where
  "findTrack i s = find (\<lambda>t. track_id t = i) (tracks s)"

definition findById :: "objectId \<Rightarrow> db \<Rightarrow> user option" where
  "findById i s = find (\<lambda>u. user_id u = i) (users s)"

definition findOne :: "string \<Rightarrow> db \<Rightarrow> user option" where
  "findOne n s = find (\<lambda>u. username u = n) (users s)"

text \<open>\<^verbatim>\<open>populate('favorites')\<close> replaces every id of the array by the track it names, in the
  array's order, and leaves out an id that names no track.\<close>

definition populate :: "objectId list \<Rightarrow> db \<Rightarrow> musicTrack list" where
  "populate favs s = List.map_filter (\<lambda>i. findTrack i s) favs"

definition findByIdPopulate :: "objectId \<Rightarrow> db \<Rightarrow> (user \<times> musicTrack list) option" where
  "findByIdPopulate i s = map_option (\<lambda>u. (u, populate (favorites u) s)) (findById i s)"

section \<open>Routes\<close>

text \<open>
  A route takes the database, the \<^verbatim>\<open>userId\<close> of the request's session (\<open>None\<close> when the
  session has none) and the request's parameters, and returns the database and the response.
  The database is taken to answer every operation; a lost connection is not modelled, so the
  \<^verbatim>\<open>catch\<close> block of a route is reached by the errors of the datatype above only.
\<close>

definition isAuthenticated :: "objectId option \<Rightarrow> db \<Rightarrow> (objectId \<Rightarrow> db \<times> response) \<Rightarrow> db \<times> response" where
  "isAuthenticated sess s handler =
     (case sess of
        Some uid \<Rightarrow> handler uid
      | None \<Rightarrow> (s, Redirect ''/login''))"

definition post_delete :: "cast \<Rightarrow> db \<Rightarrow> objectId option \<Rightarrow> string \<Rightarrow> db \<times> response" where
  "post_delete castId s sess trackId =
     isAuthenticated sess s (\<lambda>uid.
       case findByIdAndDelete castId trackId s of
         Inl err \<Rightarrow> (s, Send 500 ''Error processing deletion.'')
       | Inr s1 \<Rightarrow>
          (case updateMany_pull castId trackId s1 of
             Inl err \<Rightarrow> (s1, Send 500 ''Error processing deletion.'')
           | Inr s2 \<Rightarrow> (s2, Redirect ''/browse'')))"

definition get_browse :: "db \<Rightarrow> objectId option \<Rightarrow> db \<times> response" where
  "get_browse s sess =
     (let found = find_all s;
          user = (case sess of None \<Rightarrow> None | Some uid \<Rightarrow> findByIdPopulate uid s)
      in (s, Render_browse found user))"

definition post_favorite :: "cast \<Rightarrow> db \<Rightarrow> objectId option \<Rightarrow> string \<Rightarrow> db \<times> response" where
  "post_favorite castId s sess trackId =
     isAuthenticated sess s (\<lambda>userId.
       case findByIdAndUpdate castId userId addToSet trackId s of
         Inl err \<Rightarrow> (s, Send 500 ''Error saving favorite.'')
       | Inr s1 \<Rightarrow> (s1, Redirect ''/favorites''))"

definition post_unfavorite :: "cast \<Rightarrow> db \<Rightarrow> objectId option \<Rightarrow> string \<Rightarrow> db \<times> response" where
  "post_unfavorite castId s sess trackId =
     isAuthenticated sess s (\<lambda>userId.
       case findByIdAndUpdate castId userId pull trackId s of
         Inl err \<Rightarrow> (s, Send 500 ''Error removing favorite.'')
       | Inr s1 \<Rightarrow> (s1, Redirect ''/favorites''))"

definition get_favorites :: "db \<Rightarrow> objectId option \<Rightarrow> db \<times> response" where
  "get_favorites s sess =
     isAuthenticated sess s (\<lambda>userId.
       case findByIdPopulate userId s of
         None \<Rightarrow> (s, Send 500 ''Error fetching favorites.'')
       | Some (user, favs) \<Rightarrow> (s, Render_favorites user favs))"

section \<open>JavaScript values and strings\<close>

text \<open>\<^verbatim>\<open>!v\<close> holds of \<^verbatim>\<open>undefined\<close> and of the empty string; \<^verbatim>\<open>v || d\<close> is \<open>d\<close> for
  both.\<close>

definition truthy :: "string option \<Rightarrow> bool" where
  "truthy v = (case v of None \<Rightarrow> False | Some x \<Rightarrow> x \<noteq> [])"

definition orElse :: "string option \<Rightarrow> string \<Rightarrow> string" where
  "orElse v d = (case v of None \<Rightarrow> d | Some x \<Rightarrow> if x = [] then d else x)"

fun str_includes :: "string \<Rightarrow> string \<Rightarrow> bool" where
  "str_includes [] needle = (needle = [])"
| "str_includes (c # cs) needle = (prefix needle (c # cs) \<or> str_includes cs needle)"

text \<open>The UTF-8 bytes of a code unit below 256.\<close>

definition utf8 :: "char \<Rightarrow> byte list" where
  "utf8 c = (let n = (of_char c :: nat) in
     if n < 128 then [of_nat n] else [of_nat (192 + n div 64), of_nat (128 + n mod 64)])"

definition stringToBytes :: "string \<Rightarrow> byte list" where
  "stringToBytes x = concat (map utf8 x)"

definition unreserved :: "char \<Rightarrow> bool" where
  "unreserved c \<longleftrightarrow>
     c \<in> set (''ABCDEFGHIJKLMNOPQRSTUVWXYZabcdefghijklmnopqrstuvwxyz0123456789-_.!~*()'' @ [CHR 0x27])"

definition hexDigit :: "nat \<Rightarrow> char" where
  "hexDigit n = ''0123456789ABCDEF'' ! (n mod 16)"

definition encodeURIComponent :: "string \<Rightarrow> string" where
  "encodeURIComponent x =
     concat (map (\<lambda>c. if unreserved c then [c]
                       else concat (map (\<lambda>b. [CHR ''%'', hexDigit (unat b div 16), hexDigit (unat b mod 16)])
                                        (utf8 c))) x)"

section \<open>bcrypt\<close>

text \<open>
  \<^verbatim>\<open>bcryptjs\<close> appends a NUL to the UTF-8 bytes of the password and keys Blowfish with
  them: each keying step reads 18 words of 4 bytes from the key, starting again at its first
  byte when it reaches the end, so that only the first 72 bytes of a longer password are
  used (the library's documentation says so). The cipher is a parameter \<open>eks\<close> of the
  model, a function of the cost, the salt and those 72 bytes. \<^verbatim>\<open>bcrypt.compare\<close> hashes the candidate with
  the cost and the salt of the stored hash and compares the two hashes; it rejects a
  candidate that is no string.
\<close>

type_synonym eksblowfish = "nat \<Rightarrow> byte list \<Rightarrow> byte list \<Rightarrow> byte list"

definition keyMaterial :: "string \<Rightarrow> byte list" where
  "keyMaterial x = (let k = stringToBytes x @ [0] in map (\<lambda>i. k ! (i mod length k)) [0..<72])"

definition bcrypt_hash :: "eksblowfish \<Rightarrow> string \<Rightarrow> nat \<Rightarrow> byte list \<Rightarrow> bcryptHash" where
  "bcrypt_hash eks x rounds slt =
     \<lparr>cost = rounds, salt = slt, digest = eks rounds slt (keyMaterial x)\<rparr>"

definition bcrypt_compare :: "eksblowfish \<Rightarrow> string option \<Rightarrow> bcryptHash \<Rightarrow> error + bool" where
  "bcrypt_compare eks candidate h =
     (case candidate of
        None \<Rightarrow> Inl IllegalArguments
      | Some x \<Rightarrow> Inr (bcrypt_hash eks x (cost h) (salt h) = h))"

definition comparePassword :: "eksblowfish \<Rightarrow> user \<Rightarrow> string option \<Rightarrow> error + bool" where
  "comparePassword eks u candidatePassword = bcrypt_compare eks candidatePassword (password u)"

section \<open>Saving documents\<close>

text \<open>
  \<^verbatim>\<open>new User({ username, password })\<close> and \<^verbatim>\<open>new MusicTrack({...})\<close> give the document
  its \<^verbatim>\<open>_id\<close> before it is saved; the id and the salt that \<^verbatim>\<open>bcrypt.hash\<close> draws are inputs
  of the model. \<^verbatim>\<open>save\<close> validates the required strings, runs the pre-save hook (a new
  document's password counts as modified, so it is hashed with cost 10) and inserts; the
  server refuses a second document with the same \<^verbatim>\<open>_id\<close>, or with the same \<^verbatim>\<open>username\<close>
  (the unique index of the schema), with error code 11000.
\<close>

definition pre_save :: "eksblowfish \<Rightarrow> objectId \<Rightarrow> string \<Rightarrow> string \<Rightarrow> byte list \<Rightarrow> user" where
  "pre_save eks newId uname pw slt =
     \<lparr>user_id = newId, username = uname, password = bcrypt_hash eks pw 10 slt, favorites = []\<rparr>"

definition save_user :: "eksblowfish \<Rightarrow> objectId \<Rightarrow> string \<Rightarrow> string \<Rightarrow> byte list \<Rightarrow> db \<Rightarrow> error + db" where
  "save_user eks newId uname pw slt s =
     (if uname = [] \<or> pw = [] then Inl ValidationError
      else let doc = pre_save eks newId uname pw slt
           in if newId \<in> user_id ` set (users s) \<or> uname \<in> username ` set (users s)
              then Inl (MongoError 11000)
              else Inr (s\<lparr>users := users s @ [doc]\<rparr>))"

definition save_track :: "musicTrack \<Rightarrow> db \<Rightarrow> error + db" where
  "save_track doc s =
     (if name doc = [] \<or> embedUrl doc = [] then Inl ValidationError
      else if track_id doc \<in> track_id ` set (tracks s) then Inl (MongoError 11000)
      else Inr (s\<lparr>tracks := tracks s @ [doc]\<rparr>))"

section \<open>Routes that create documents, and the randomizer\<close>

text \<open>The routes that log a user in also return the session's new \<^verbatim>\<open>userId\<close>. Where a
  route reads a form field with \<^const>\<open>the\<close>, the test before it has shown the field to be a
  string.\<close>

definition post_register ::
  "eksblowfish \<Rightarrow> db \<Rightarrow> objectId option \<Rightarrow> string option \<Rightarrow> string option \<Rightarrow> objectId \<Rightarrow> byte list
     \<Rightarrow> db \<times> objectId option \<times> response" where
  "post_register eks s sess uname pw newId slt =
     (if \<not> truthy uname \<or> \<not> truthy pw \<or> length (the pw) < 6
      then (s, sess, Render_register ''Username/Password cannot be empty or password too short.'')
      else case save_user eks newId (the uname) (the pw) slt s of
             Inr s1 \<Rightarrow> (s1, Some newId, Redirect ''/'')
           | Inl err \<Rightarrow>
               (let errorMsg = (if err = MongoError 11000
                                then ''That username is already taken. Please try another.''
                                else ''An error occurred during registration.'')
                in (s, sess, Render_register errorMsg)))"

definition post_login ::
  "eksblowfish \<Rightarrow> db \<Rightarrow> objectId option \<Rightarrow> string \<Rightarrow> string option \<Rightarrow> db \<times> objectId option \<times> response" where
  "post_login eks s sess uname pw =
     (case findOne uname s of
        None \<Rightarrow> (s, sess, Render_login ''Invalid username or password.'')
      | Some u \<Rightarrow>
         (case comparePassword eks u pw of
            Inl err \<Rightarrow> (s, sess, Send 500 ''Server Error during login process.'')
          | Inr ok \<Rightarrow>
             if \<not> ok then (s, sess, Render_login ''Invalid username or password.'')
             else (s, Some (user_id u), Redirect ''/'')))"

record trackForm =
  form_name :: "string option"
  form_artist :: "string option"
  form_genre :: "string option"
  form_embedUrl :: "string option"

definition invalidTrackDetails :: string where
  "invalidTrackDetails =
     ''Invalid track details: Name is required, and URL must be a YouTube embed link.''"

text \<open>The condition \<^verbatim>\<open>!name || !embedUrl.includes('youtube.com/embed/')\<close>: the right
  operand is evaluated when the name is a non-empty string, and \<^verbatim>\<open>embedUrl.includes\<close>
  throws a \<^verbatim>\<open>TypeError\<close> when \<^verbatim>\<open>embedUrl\<close> is \<^verbatim>\<open>undefined\<close>.\<close>

definition invalid_details :: "trackForm \<Rightarrow> error + bool" where
  "invalid_details body =
     (if \<not> truthy (form_name body) then Inr True
      else case form_embedUrl body of
             None \<Rightarrow> Inl TypeError
           | Some e \<Rightarrow> Inr (\<not> str_includes e ''youtube.com/embed/''))"

definition post_add :: "db \<Rightarrow> objectId option \<Rightarrow> trackForm \<Rightarrow> objectId \<Rightarrow> nat \<Rightarrow> db \<times> response" where
  "post_add s sess body newId now =
     isAuthenticated sess s (\<lambda>uid.
       case invalid_details body of
         Inl err \<Rightarrow> (s, Send 500 ''Error adding track. Check server logs.'')
       | Inr True \<Rightarrow> (s, Redirect (''/?error='' @ encodeURIComponent invalidTrackDetails))
       | Inr False \<Rightarrow>
          (let newTrack = \<lparr>track_id = newId, name = the (form_name body),
                           artist = Some (orElse (form_artist body) ''User Contributed''),
                           genre = Some (orElse (form_genre body) ''Unknown Palate Cleanser''),
                           embedUrl = the (form_embedUrl body), createdAt = now\<rparr>
           in case save_track newTrack s of
                Inl err \<Rightarrow> (s, Send 500 ''Error adding track. Check server logs.'')
              | Inr s1 \<Rightarrow> (s1, Redirect ''/'')))"

text \<open>\<^verbatim>\<open>$sample\<close> of size 1 returns one document chosen at random, and none from an empty
  collection; the choice \<open>r\<close> is an input. \<^verbatim>\<open>randomTrack[0]\<close> of an empty array is
  \<^verbatim>\<open>undefined\<close>.\<close>

definition sample :: "nat \<Rightarrow> musicTrack list \<Rightarrow> musicTrack list" where
  "sample r ts = (if ts = [] then [] else [ts ! (r mod length ts)])"

definition get_index :: "db \<Rightarrow> objectId option \<Rightarrow> string option \<Rightarrow> nat \<Rightarrow> db \<times> response" where
  "get_index s sess queryError r =
     (let error = orElse queryError [];
          tracksCount = length (tracks s);
          randomTrack = sample r (tracks s);
          track = (case randomTrack of [] \<Rightarrow> None | t # _ \<Rightarrow> Some t);
          user = (case sess of None \<Rightarrow> None | Some uid \<Rightarrow> findById uid s)
      in (s, Render_index track user tracksCount error))"

section \<open>Sessions\<close>

text \<open>
  The session middleware is configured with \<^verbatim>\<open>resave: false\<close>,
  \<^verbatim>\<open>saveUninitialized: false\<close>, a \<^verbatim>\<open>connect-mongo\<close> store and
  \<^verbatim>\<open>cookie: { maxAge: 1000 * 60 * 60 * 24 }\<close>. The store keeps, under the session id that
  the cookie carries, the session's data (here the \<^verbatim>\<open>userId\<close>) and the time at which it
  expires. Time is in milliseconds and is an input of every request, as is the id that the
  middleware draws for a new session.
\<close>

record sessionDoc =
  session_userId :: "objectId option"
  expires :: nat

type_synonym sessionStore = "string \<Rightarrow> sessionDoc option"

definition maxAge :: nat where
  "maxAge = 1000 * 60 * 60 * 24"

text \<open>The store finds a session only while its expiry time is later than now.\<close>

definition store_get :: "sessionStore \<Rightarrow> string \<Rightarrow> nat \<Rightarrow> sessionDoc option" where
  "store_get st sid now =
     (case st sid of
        None \<Rightarrow> None
      | Some d \<Rightarrow> if now < expires d then Some d else None)"

definition store_destroy :: "sessionStore \<Rightarrow> string \<Rightarrow> sessionStore" where
  "store_destroy st sid = st(sid := None)"

text \<open>
  For a request, the middleware loads the session that the cookie names; without a cookie,
  or when the store finds none, the request gets a new, empty session under a new id. The
  handler runs with the session's \<^verbatim>\<open>userId\<close> and may set it. When the response ends, a new
  session that the handler left empty is not stored; any other session is written back with
  its expiry set to now plus \<^verbatim>\<open>maxAge\<close>: the middleware touches every session it has loaded
  (\<^verbatim>\<open>req.session.touch()\<close>), and with \<^verbatim>\<open>resave: false\<close> it hands an unmodified session to
  the store's \<^verbatim>\<open>touch\<close>, which stores the new expiry. The result is the store, the id of the
  request's session and what the handler answered.
\<close>

definition session_middleware ::
  "sessionStore \<Rightarrow> string option \<Rightarrow> string \<Rightarrow> nat \<Rightarrow> (objectId option \<Rightarrow> 'r \<times> objectId option)
     \<Rightarrow> sessionStore \<times> string \<times> 'r" where
  "session_middleware st cookie newSid now handler =
     (let (sid, isNew, sess) =
            (case cookie of
               None \<Rightarrow> (newSid, True, None)
             | Some c \<Rightarrow>
                (case store_get st c now of
                   None \<Rightarrow> (newSid, True, None)
                 | Some d \<Rightarrow> (c, False, session_userId d)));
          (result, sess') = handler sess;
          st' = (if isNew \<and> sess' = None then st
                 else st(sid \<mapsto> \<lparr>session_userId = sess', expires = now + maxAge\<rparr>))
      in (st', sid, result))"

text \<open>What a successful \<^verbatim>\<open>POST /register\<close> or \<^verbatim>\<open>POST /login\<close> does to the session:
  \<^verbatim>\<open>req.session.userId = user._id\<close>. The id of the session is the token the client holds.\<close>

definition start_session ::
  "sessionStore \<Rightarrow> string option \<Rightarrow> string \<Rightarrow> nat \<Rightarrow> objectId \<Rightarrow> sessionStore \<times> string \<times> unit" where
  "start_session st cookie newSid now uid =
     session_middleware st cookie newSid now (\<lambda>sess. ((), Some uid))"

text \<open>A request that reads the session and leaves it as it is; the result is the
  \<^verbatim>\<open>req.session.userId\<close> that \<^verbatim>\<open>isAuthenticated\<close> tests.\<close>

definition resolve_session ::
  "sessionStore \<Rightarrow> string option \<Rightarrow> string \<Rightarrow> nat \<Rightarrow> sessionStore \<times> string \<times> objectId option" where
  "resolve_session st cookie newSid now =
     session_middleware st cookie newSid now (\<lambda>sess. (sess, sess))"

text \<open>A route behind \<^verbatim>\<open>isAuthenticated\<close>, run through the middleware.\<close>

definition guarded ::
  "sessionStore \<Rightarrow> string option \<Rightarrow> string \<Rightarrow> nat \<Rightarrow> db \<Rightarrow> (objectId \<Rightarrow> db \<times> response)
     \<Rightarrow> sessionStore \<times> string \<times> db \<times> response" where
  "guarded st cookie newSid now s handler =
     session_middleware st cookie newSid now (\<lambda>sess. (isAuthenticated sess s handler, sess))"

text \<open>\<^verbatim>\<open>POST /logout\<close>: \<^verbatim>\<open>req.session.destroy\<close> removes the request's session from the
  store, and nothing is written back when the response ends.\<close>

definition post_logout :: "sessionStore \<Rightarrow> string option \<Rightarrow> string \<Rightarrow> nat \<Rightarrow> sessionStore \<times> response" where
  "post_logout st cookie newSid now =
     (let sid = (case cookie of
                   None \<Rightarrow> newSid
                 | Some c \<Rightarrow> (case store_get st c now of None \<Rightarrow> newSid | Some d \<Rightarrow> c))
      in (store_destroy st sid, Redirect ''/login''))"

text \<open>\<^verbatim>\<open>POST /login\<close> run through the middleware: the route's new \<^verbatim>\<open>userId\<close> is the
  session's.\<close>

definition login_request ::
  "eksblowfish \<Rightarrow> sessionStore \<Rightarrow> string option \<Rightarrow> string \<Rightarrow> nat \<Rightarrow> db \<Rightarrow> string \<Rightarrow> string option
     \<Rightarrow> sessionStore \<times> string \<times> db \<times> response" where
  "login_request eks st cookie newSid now s uname pw =
     session_middleware st cookie newSid now
       (\<lambda>sess. case post_login eks s sess uname pw of (s', sess', r) \<Rightarrow> ((s', r), sess'))"

text \<open>A client that keeps using its token: the requests, each with the id drawn for it and
  its time, in order. \<open>within_idle\<close> says that each request comes less than \<^verbatim>\<open>maxAge\<close> after
  the one before it.\<close>

fun requests :: "sessionStore \<Rightarrow> string \<Rightarrow> (string \<times> nat) list \<Rightarrow> sessionStore" where
  "requests st token [] = st"
| "requests st token ((newSid, now) # rs) =
     requests (fst (resolve_session st (Some token) newSid now)) token rs"

fun within_idle :: "nat \<Rightarrow> nat list \<Rightarrow> bool" where
  "within_idle t0 [] = True"
| "within_idle t0 (t # ts) = (t < t0 + maxAge \<and> within_idle t ts)"

section \<open>Example data\<close>

definition hexValue :: "char \<Rightarrow> nat option" where
  "hexValue c = (let n = (of_char c :: nat) in
     if 48 \<le> n \<and> n \<le> 57 then Some (n - 48)
     else if 97 \<le> n \<and> n \<le> 102 then Some (n - 87)
     else if 65 \<le> n \<and> n \<le> 70 then Some (n - 55)
     else None)"

fun hexNat :: "nat \<Rightarrow> string \<Rightarrow> nat option" where
  "hexNat acc [] = Some acc"
| "hexNat acc (c # cs) = (case hexValue c of None \<Rightarrow> None | Some d \<Rightarrow> hexNat (16 * acc + d) cs)"

text \<open>The cast every version of the driver agrees on: 24 hexadecimal digits.\<close>

definition hexObjectId :: cast where
  "hexObjectId p = (if length p = 24 then map_option of_nat (hexNat 0 p) else None)"

definition tibetan :: musicTrack where
  "tibetan = \<lparr>track_id = 0x650000000000000000000a01, name = ''Tibetan Bowl Resonances'',
               artist = Some ''Calm Sounds'', genre = Some ''Ambient Drone'',
               embedUrl = ''https://www.youtube.com/embed/PjE2qf6F3F4'', createdAt = 0\<rparr>"

definition rain :: musicTrack where
  "rain = \<lparr>track_id = 0x650000000000000000000a02, name = ''Heavy Rain on Tin Roof'',
            artist = Some ''Nature Sounds'', genre = Some ''White Noise'',
            embedUrl = ''https://www.youtube.com/embed/q76bMAP1Xqg'', createdAt = 0\<rparr>"

definition tibetan_param :: string where
  "tibetan_param = ''650000000000000000000a01''"

definition rain_param :: string where
  "rain_param = ''650000000000000000000a02''"

definition absent_param :: string where
  "absent_param = ''650000000000000000000aff''"

text \<open>A stand-in for the cipher that returns its 72 bytes of key: no cipher tells more
  passwords apart, since the password reaches the cipher through them only.\<close>

definition key_eks :: eksblowfish where
  "key_eks rounds slt k = k"

definition example_salt :: "byte list" where
  "example_salt = [1, 2, 3, 4, 5, 6, 7, 8, 9, 10, 11, 12, 13, 14, 15, 16]"

definition alice :: user where
  "alice = \<lparr>user_id = 0x650000000000000000000b01, username = ''alice'',
             password = bcrypt_hash key_eks ''password1'' 10 example_salt,
             favorites = [0x650000000000000000000a01, 0x650000000000000000000a02]\<rparr>"

definition bob :: user where
  "bob = \<lparr>user_id = 0x650000000000000000000b02, username = ''bob'',
           password = bcrypt_hash key_eks ''hunter22'' 10 example_salt,
           favorites = [0x650000000000000000000a01]\<rparr>"

definition example_db :: db where
  "example_db = \<lparr>tracks = [tibetan, rain], users = [alice, bob]\<rparr>"

definition empty_db :: db where
  "empty_db = \<lparr>tracks = [], users = []\<rparr>"

definition long_password :: string where
  "long_password = replicate 72 (CHR ''a'') @ ''1''"

definition other_long_password :: string where
  "other_long_password = replicate 72 (CHR ''a'') @ ''2''"

section \<open>Facts about the store operations\<close>

lemma find_track_None: "find (\<lambda>t. track_id t = i) ts = None \<longleftrightarrow> i \<notin> track_id ` set ts"
  by (induction ts) auto

lemma findTrack_Some: "findTrack i s = Some t \<Longrightarrow> track_id t = i \<and> t \<in> set (tracks s)"
  by (auto simp: findTrack_def find_Some_iff)

lemma deleteOne_subset: "set (deleteOne i ts) \<subseteq> set ts"
  by (induction ts) auto

lemma deleteOne_removes:
  "distinct (map track_id ts) \<Longrightarrow> i \<notin> track_id ` set (deleteOne i ts)"
proof (induction ts)
  case Nil
  then show ?case by simp
next
  case (Cons a ts)
  show ?case
  proof (cases "track_id a = i")
    case True
    with Cons.prems show ?thesis by auto
  next
    case False
    with Cons show ?thesis by auto
  qed
qed

lemma deleteOne_absent: "i \<notin> track_id ` set ts \<Longrightarrow> deleteOne i ts = ts"
  by (induction ts) auto

lemma deleteOne_distinct:
  "distinct (map track_id ts) \<Longrightarrow> distinct (map track_id (deleteOne i ts))"
proof (induction ts)
  case Nil
  then show ?case by simp
next
  case (Cons a ts)
  have "track_id ` set (deleteOne i ts) \<subseteq> track_id ` set ts"
    using deleteOne_subset [of i ts] by blast
  with Cons show ?case by auto
qed

lemma populate_Nil: "populate [] s = []"
  by (simp add: populate_def)

lemma populate_Cons:
  "populate (i # favs) s =
     (case findTrack i s of None \<Rightarrow> populate favs s | Some t \<Rightarrow> t # populate favs s)"
  by (simp add: populate_def split: option.split)

lemma populate_ids: "track_id ` set (populate favs s) \<subseteq> set favs \<inter> track_id ` set (tracks s)"
proof (induction favs)
  case Nil
  show ?case by (simp add: populate_Nil)
next
  case (Cons a favs)
  show ?case
  proof (cases "findTrack a s")
    case None
    with Cons show ?thesis by (auto simp: populate_Cons)
  next
    case (Some t)
    with Cons findTrack_Some [OF Some] show ?thesis by (auto simp: populate_Cons)
  qed
qed

lemma pull_absent: "i \<notin> set (pull i favs)"
  by (simp add: pull_def)

lemma pull_id: "i \<notin> set favs \<Longrightarrow> pull i favs = favs"
  by (auto simp: pull_def filter_id_conv)

lemma pull_distinct: "distinct favs \<Longrightarrow> distinct (pull i favs)"
  by (simp add: pull_def)

lemma addToSet_distinct: "distinct favs \<Longrightarrow> distinct (addToSet i favs)"
  by (simp add: addToSet_def)

lemma addToSet_member: "i \<in> set (addToSet i favs)"
  by (simp add: addToSet_def)

lemma addToSet_twice: "addToSet i (addToSet i favs) = addToSet i favs"
  by (simp add: addToSet_def)

lemma updateOne_same:
  "find (\<lambda>u. user_id u = i) us = Some u \<Longrightarrow> f u = u \<Longrightarrow> updateOne i f us = us"
  by (induction us) (auto split: if_splits)

lemma updateOne_missing:
  "find (\<lambda>u. user_id u = i) us = None \<Longrightarrow> updateOne i f us = us"
  by (induction us) (auto split: if_splits)

lemma find_updateOne:
  "find (\<lambda>u. user_id u = i) us = Some u \<Longrightarrow> user_id (f u) = i \<Longrightarrow>
   find (\<lambda>u. user_id u = i) (updateOne i f us) = Some (f u)"
  by (induction us) (auto split: if_splits)

section \<open>Facts about the routes\<close>

lemma post_delete_ok:
  "castId p = Some t \<Longrightarrow>
   post_delete castId s (Some v) p =
     (s\<lparr>tracks := deleteOne t (tracks s),
        users := map (\<lambda>u. u\<lparr>favorites := pull t (favorites u)\<rparr>) (users s)\<rparr>, Redirect ''/browse'')"
  by (simp add: post_delete_def isAuthenticated_def findByIdAndDelete_def updateMany_pull_def)

lemma post_delete_redirect:
  assumes "post_delete castId s sess p = (s', Redirect ''/browse'')"
  shows "\<exists>v t. sess = Some v \<and> castId p = Some t"
  using assms
  by (auto simp: post_delete_def isAuthenticated_def findByIdAndDelete_def updateMany_pull_def
           split: option.splits)

lemma post_delete_malformed:
  "castId p = None \<Longrightarrow> post_delete castId s (Some v) p = (s, Send 500 ''Error processing deletion.'')"
  by (simp add: post_delete_def isAuthenticated_def findByIdAndDelete_def)

lemma post_favorite_ok:
  "castId p = Some t \<Longrightarrow>
   post_favorite castId s (Some uid) p =
     (s\<lparr>users := updateOne uid (\<lambda>u. u\<lparr>favorites := addToSet t (favorites u)\<rparr>) (users s)\<rparr>,
      Redirect ''/favorites'')"
  by (simp add: post_favorite_def isAuthenticated_def findByIdAndUpdate_def)

lemma post_unfavorite_ok:
  "castId p = Some t \<Longrightarrow>
   post_unfavorite castId s (Some uid) p =
     (s\<lparr>users := updateOne uid (\<lambda>u. u\<lparr>favorites := pull t (favorites u)\<rparr>) (users s)\<rparr>,
      Redirect ''/favorites'')"
  by (simp add: post_unfavorite_def isAuthenticated_def findByIdAndUpdate_def)

lemma get_favorites_found:
  "findById uid s = Some u \<Longrightarrow>
   get_favorites s (Some uid) = (s, Render_favorites u (populate (favorites u) s))"
  by (simp add: get_favorites_def isAuthenticated_def findByIdPopulate_def)

section \<open>Casting the example ids\<close>

lemma cast_tibetan: "hexObjectId tibetan_param = Some 0x650000000000000000000a01"
proof -
  have "hexNat 0 tibetan_param = Some 0x650000000000000000000a01"
    by (simp add: tibetan_param_def hexValue_def)
  then show ?thesis
    by (simp add: hexObjectId_def tibetan_param_def)
qed

lemma cast_absent: "hexObjectId absent_param = Some 0x650000000000000000000aff"
proof -
  have "hexNat 0 absent_param = Some 0x650000000000000000000aff"
    by (simp add: absent_param_def hexValue_def)
  then show ?thesis
    by (simp add: hexObjectId_def absent_param_def)
qed

lemma cast_rain: "hexObjectId rain_param = Some 0x650000000000000000000a02"
proof -
  have "hexNat 0 rain_param = Some 0x650000000000000000000a02"
    by (simp add: rain_param_def hexValue_def)
  then show ?thesis
    by (simp add: hexObjectId_def rain_param_def)
qed

section \<open>Deleting a track\<close>

text \<open>
  C1. Deleting a track cascades into every user's favorites. When \<^verbatim>\<open>POST /delete/:id\<close>
  succeeds for the id \<open>t\<close> (it answers with the redirect to \<^verbatim>\<open>/browse\<close>), the list of all
  tracks no longer has a track with id \<open>t\<close>, no user's \<^verbatim>\<open>favorites\<close> array holds \<open>t\<close>, and
  the populated favorites of every user have no track with id \<open>t\<close>. Ids are unique in the
  collection, as the database guarantees for \<^verbatim>\<open>_id\<close>.
\<close>

theorem delete_cascades_to_favorites:
  assumes "distinct (map track_id (tracks s))"
    and "castId p = Some t"
    and "post_delete castId s sess p = (s', Redirect ''/browse'')"
  shows "t \<notin> track_id ` set (find_all s') \<and>
         (\<forall>u \<in> set (users s'). t \<notin> set (favorites u)) \<and>
         (\<forall>uid u favs. findByIdPopulate uid s' = Some (u, favs) \<longrightarrow>
             t \<notin> set (favorites u) \<and> t \<notin> track_id ` set favs)"
proof -
  from assms(3) obtain v where "sess = Some v"
    using post_delete_redirect by blast
  with assms(2,3) have s': "s' = s\<lparr>tracks := deleteOne t (tracks s),
        users := map (\<lambda>u. u\<lparr>favorites := pull t (favorites u)\<rparr>) (users s)\<rparr>"
    by (simp add: post_delete_ok)
  have gone: "t \<notin> track_id ` set (find_all s')"
    using deleteOne_removes [OF assms(1), of t] by (simp add: s' find_all_def)
  have pulled: "\<forall>u \<in> set (users s'). t \<notin> set (favorites u)"
    by (auto simp: s' pull_absent)
  have "t \<notin> set (favorites u) \<and> t \<notin> track_id ` set favs"
    if "findByIdPopulate uid s' = Some (u, favs)" for uid u favs
  proof -
    from that have u: "u \<in> set (users s')" and favs: "favs = populate (favorites u) s'"
      by (auto simp: findByIdPopulate_def findById_def find_Some_iff)
    from u pulled have "t \<notin> set (favorites u)" by blast
    moreover have "track_id ` set favs \<subseteq> set (favorites u)"
      using populate_ids [of "favorites u" s'] favs by blast
    ultimately show ?thesis by blast
  qed
  with gone pulled show ?thesis by blast
qed

text \<open>Alice and Bob both have the first seed track among their favorites; Alice deletes it.\<close>

theorem delete_cascades_to_favorites_witness:
  "distinct (map track_id (tracks example_db)) \<and>
   hexObjectId tibetan_param = Some (track_id tibetan) \<and>
   post_delete hexObjectId example_db (Some (user_id alice)) tibetan_param =
     (\<lparr>tracks = [rain], users = [alice\<lparr>favorites := [track_id rain]\<rparr>, bob\<lparr>favorites := []\<rparr>]\<rparr>,
      Redirect ''/browse'') \<and>
   track_id tibetan \<notin> track_id `
     set (find_all \<lparr>tracks = [rain], users = [alice\<lparr>favorites := [track_id rain]\<rparr>, bob\<lparr>favorites := []\<rparr>]\<rparr>)"
proof -
  have h1: "distinct (map track_id (tracks example_db))"
    by (simp add: example_db_def tibetan_def rain_def)
  have h2: "hexObjectId tibetan_param = Some (track_id tibetan)"
    by (simp add: cast_tibetan tibetan_def)
  have h3: "post_delete hexObjectId example_db (Some (user_id alice)) tibetan_param =
     (\<lparr>tracks = [rain], users = [alice\<lparr>favorites := [track_id rain]\<rparr>, bob\<lparr>favorites := []\<rparr>]\<rparr>,
      Redirect ''/browse'')"
    by (simp add: post_delete_ok [of hexObjectId, OF cast_tibetan] example_db_def tibetan_def
          rain_def pull_def alice_def bob_def)
  from delete_cascades_to_favorites [OF h1 h2 h3] h1 h2 h3 show ?thesis
    by blast
qed

section \<open>Registering and verifying a password\<close>

lemma find_append:
  "find P (xs @ ys) = (case find P xs of None \<Rightarrow> find P ys | Some x \<Rightarrow> Some x)"
  by (induction xs) auto

lemma findOne_None: "findOne n s = None \<longleftrightarrow> n \<notin> username ` set (users s)"
  by (auto simp: findOne_def find_None_iff)

lemma stringToBytes_append: "stringToBytes (x @ y) = stringToBytes x @ stringToBytes y"
  by (simp add: stringToBytes_def)

lemma stringToBytes_replicate_a: "stringToBytes (replicate n (CHR ''a'')) = replicate n 97"
  by (induction n) (simp_all add: stringToBytes_def utf8_def)

text \<open>Of a password of 72 bytes or more, the cipher sees the first 72 bytes and nothing
  else.\<close>

lemma keyMaterial_long:
  assumes "72 \<le> length (stringToBytes x)"
  shows "keyMaterial x = take 72 (stringToBytes x)"
proof (rule nth_equalityI)
  show "length (keyMaterial x) = length (take 72 (stringToBytes x))"
    using assms by (simp add: keyMaterial_def)
next
  fix i
  assume "i < length (keyMaterial x)"
  then have i: "i < 72"
    by (simp add: keyMaterial_def)
  with assms have "i mod (length (stringToBytes x) + 1) = i"
    by simp
  moreover have "(stringToBytes x @ [0]) ! i = stringToBytes x ! i"
    using i assms by (simp add: nth_append)
  ultimately show "keyMaterial x ! i = take 72 (stringToBytes x) ! i"
    using i by (simp add: keyMaterial_def Let_def del: upt_Suc)
qed

lemma keyMaterial_first: "keyMaterial x ! 0 = (stringToBytes x @ [0]) ! 0"
  by (simp add: keyMaterial_def Let_def nth_map_upt del: upt_Suc)

lemma keyMaterial_long_passwords: "keyMaterial other_long_password = keyMaterial long_password"
proof -
  have "keyMaterial long_password = replicate 72 97"
    by (simp add: keyMaterial_long long_password_def stringToBytes_append
          stringToBytes_replicate_a)
  moreover have "keyMaterial other_long_password = replicate 72 97"
    by (simp add: keyMaterial_long other_long_password_def stringToBytes_append
          stringToBytes_replicate_a)
  ultimately show ?thesis by simp
qed

lemma keyMaterial_wrongpass: "keyMaterial ''wrongpass'' \<noteq> keyMaterial ''password1''"
proof
  assume "keyMaterial ''wrongpass'' = keyMaterial ''password1''"
  then have "keyMaterial ''wrongpass'' ! 0 = keyMaterial ''password1'' ! 0"
    by simp
  then show False
    by (simp add: keyMaterial_first stringToBytes_def utf8_def)
qed

lemma bcrypt_compare_hash:
  "bcrypt_compare eks (Some c) (bcrypt_hash eks pw rounds slt) =
     Inr (eks rounds slt (keyMaterial c) = eks rounds slt (keyMaterial pw))"
  by (simp add: bcrypt_compare_def bcrypt_hash_def)

lemma comparePassword_pre_save:
  "comparePassword eks (pre_save eks newId uname pw slt) (Some c) =
     Inr (eks 10 slt (keyMaterial c) = eks 10 slt (keyMaterial pw))"
  by (simp add: comparePassword_def pre_save_def bcrypt_compare_hash)

lemma save_user_ok:
  assumes "uname \<noteq> []" and "pw \<noteq> []"
    and "findOne uname s = None" and "newId \<notin> user_id ` set (users s)"
  shows "save_user eks newId uname pw slt s =
           Inr (s\<lparr>users := users s @ [pre_save eks newId uname pw slt]\<rparr>)"
  using assms by (simp add: save_user_def findOne_None)

lemma save_user_taken:
  assumes "uname \<noteq> []" and "pw \<noteq> []" and "findOne uname s = Some u"
  shows "save_user eks newId uname pw slt s = Inl (MongoError 11000)"
proof -
  from assms(3) have "uname \<in> username ` set (users s)"
    by (auto simp: findOne_def find_Some_iff)
  with assms(1,2) show ?thesis
    by (simp add: save_user_def)
qed

lemma post_register_ok:
  assumes "uname \<noteq> []" and "6 \<le> length pw"
    and "findOne uname s = None" and "newId \<notin> user_id ` set (users s)"
  shows "post_register eks s sess (Some uname) (Some pw) newId slt =
           (s\<lparr>users := users s @ [pre_save eks newId uname pw slt]\<rparr>, Some newId, Redirect ''/'')"
proof -
  from assms(2) have "pw \<noteq> []" by auto
  with assms show ?thesis
    by (simp add: post_register_def truthy_def save_user_ok)
qed

lemma register_existing_username:
  assumes "uname \<noteq> []" and "6 \<le> length pw" and "findOne uname s = Some u"
  shows "post_register eks s sess (Some uname) (Some pw) newId slt =
           (s, sess, Render_register ''That username is already taken. Please try another.'')"
proof -
  from assms(2) have "pw \<noteq> []" by auto
  with assms show ?thesis
    by (simp add: post_register_def truthy_def save_user_taken)
qed

lemma post_register_redirect:
  assumes "post_register eks s sess (Some uname) (Some pw) newId slt = (s', sess', Redirect ''/'')"
  shows "uname \<noteq> [] \<and> 6 \<le> length pw \<and> findOne uname s = None \<and>
         newId \<notin> user_id ` set (users s) \<and>
         s' = s\<lparr>users := users s @ [pre_save eks newId uname pw slt]\<rparr> \<and> sess' = Some newId"
  using assms
  by (auto simp: post_register_def truthy_def save_user_def Let_def findOne_None
           split: if_splits sum.splits)

lemma findOne_registered:
  assumes "findOne uname s = None"
  shows "findOne uname (s\<lparr>users := users s @ [pre_save eks newId uname pw slt]\<rparr>) =
           Some (pre_save eks newId uname pw slt)"
  using assms by (simp add: findOne_def find_append pre_save_def)

lemma post_login_registered:
  assumes "findOne uname s = Some u"
  shows "post_login eks s sess uname (Some c) =
           (case comparePassword eks u (Some c) of
              Inr True \<Rightarrow> (s, Some (user_id u), Redirect ''/'')
            | _ \<Rightarrow> (s, sess, Render_login ''Invalid username or password.''))"
  using assms
  by (simp add: post_login_def comparePassword_def bcrypt_compare_def)

text \<open>Whatever the cipher, two passwords that agree on their first 72 bytes verify against
  each other's hash.\<close>

lemma long_passwords_verify_alike:
  "comparePassword eks (pre_save eks newId uname long_password slt) (Some other_long_password) =
     Inr True"
  by (simp add: comparePassword_pre_save keyMaterial_long_passwords)

text \<open>
  C2, as stated: after a registration with an unused non-empty username and a password of
  six characters or more, verifying the same password returns true and verifying any other
  password returns false. The second half fails. Alice registers with 72 times \<open>a\<close> followed
  by \<open>1\<close>; the password that ends in \<open>2\<close> instead is another password, and
  \<^verbatim>\<open>comparePassword\<close> returns true for it.
\<close>

theorem verify_other_password_counterexample:
  "other_long_password \<noteq> long_password \<and> 6 \<le> length long_password \<and>
   findOne ''alice'' empty_db = None \<and>
   post_register key_eks empty_db None (Some ''alice'') (Some long_password) (user_id alice)
       example_salt =
     (\<lparr>tracks = [], users = [pre_save key_eks (user_id alice) ''alice'' long_password example_salt]\<rparr>,
      Some (user_id alice), Redirect ''/'') \<and>
   comparePassword key_eks (pre_save key_eks (user_id alice) ''alice'' long_password example_salt)
       (Some other_long_password) = Inr True"
proof -
  have "other_long_password \<noteq> long_password"
    by (simp add: long_password_def other_long_password_def)
  moreover have "6 \<le> length long_password"
    by (simp add: long_password_def)
  moreover have unused: "findOne ''alice'' empty_db = None"
    by (simp add: findOne_def empty_db_def)
  moreover have "post_register key_eks empty_db None (Some ''alice'') (Some long_password)
       (user_id alice) example_salt =
     (\<lparr>tracks = [], users = [pre_save key_eks (user_id alice) ''alice'' long_password example_salt]\<rparr>,
      Some (user_id alice), Redirect ''/'')"
    by (simp add: post_register_def truthy_def save_user_def long_password_def empty_db_def)
  ultimately show ?thesis
    by (simp add: long_passwords_verify_alike)
qed

text \<open>
  C2, amended. For every unused non-empty username and every password of six characters or
  more (and a fresh \<^verbatim>\<open>_id\<close>), \<^verbatim>\<open>POST /register\<close> succeeds and stores the user with the
  bcrypt hash of the password; \<^verbatim>\<open>comparePassword\<close> then returns true for the same password,
  and for any candidate it returns true exactly when the cipher, under the stored cost and
  salt, gives the candidate's 72 bytes of key the digest it gave the password's, and false
  otherwise.
\<close>

theorem register_then_verify:
  assumes "uname \<noteq> []" and "6 \<le> length pw"
    and "findOne uname s = None" and "newId \<notin> user_id ` set (users s)"
  shows "post_register eks s sess (Some uname) (Some pw) newId slt =
           (s\<lparr>users := users s @ [pre_save eks newId uname pw slt]\<rparr>, Some newId, Redirect ''/'') \<and>
         findOne uname (s\<lparr>users := users s @ [pre_save eks newId uname pw slt]\<rparr>) =
           Some (pre_save eks newId uname pw slt) \<and>
         comparePassword eks (pre_save eks newId uname pw slt) (Some pw) = Inr True \<and>
         comparePassword eks (pre_save eks newId uname pw slt) (Some candidate) =
           Inr (eks 10 slt (keyMaterial candidate) = eks 10 slt (keyMaterial pw))"
  using post_register_ok [OF assms] findOne_registered [OF assms(3)]
  by (simp add: comparePassword_pre_save)

theorem register_then_verify_witness:
  "''alice'' \<noteq> [] \<and> 6 \<le> length ''password1'' \<and> findOne ''alice'' empty_db = None \<and>
   user_id alice \<notin> user_id ` set (users empty_db) \<and>
   post_register key_eks empty_db None (Some ''alice'') (Some ''password1'') (user_id alice)
       example_salt =
     (\<lparr>tracks = [], users = [pre_save key_eks (user_id alice) ''alice'' ''password1'' example_salt]\<rparr>,
      Some (user_id alice), Redirect ''/'') \<and>
   comparePassword key_eks (pre_save key_eks (user_id alice) ''alice'' ''password1'' example_salt)
       (Some ''password1'') = Inr True \<and>
   comparePassword key_eks (pre_save key_eks (user_id alice) ''alice'' ''password1'' example_salt)
       (Some ''wrongpass'') = Inr False"
proof -
  have h1: "''alice'' \<noteq> []" by simp
  have h2: "6 \<le> length ''password1''" by simp
  have h3: "findOne ''alice'' empty_db = None"
    by (simp add: findOne_def empty_db_def)
  have h4: "user_id alice \<notin> user_id ` set (users empty_db)"
    by (simp add: empty_db_def)
  from register_then_verify [OF h1 h2 h3 h4, of key_eks None example_salt "''wrongpass''"]
    h1 h2 h3 h4
  show ?thesis
    by (simp add: key_eks_def keyMaterial_wrongpass empty_db_def)
qed

text \<open>
  C3. Registering the same username twice: when a first \<^verbatim>\<open>POST /register\<close> has succeeded,
  a second one with the same username (and a password long enough to pass the form check)
  answers that the username is taken, and leaves the database as it was, with the first
  user's record in it.
\<close>

theorem register_same_username_twice:
  assumes "post_register eks s sess (Some uname) (Some pw) newId slt = (s1, sess1, Redirect ''/'')"
    and "6 \<le> length pw2"
  shows "findOne uname s1 = Some (pre_save eks newId uname pw slt) \<and>
         post_register eks s1 sess2 (Some uname) (Some pw2) newId2 slt2 =
           (s1, sess2, Render_register ''That username is already taken. Please try another.'')"
proof -
  from post_register_redirect [OF assms(1)]
  have uname: "uname \<noteq> []" and unused: "findOne uname s = None"
    and s1: "s1 = s\<lparr>users := users s @ [pre_save eks newId uname pw slt]\<rparr>"
    by simp_all
  have found: "findOne uname s1 = Some (pre_save eks newId uname pw slt)"
    unfolding s1 by (rule findOne_registered [OF unused])
  with uname assms(2) show ?thesis
    by (simp add: register_existing_username)
qed

theorem register_same_username_twice_witness:
  "post_register key_eks empty_db None (Some ''alice'') (Some ''password1'') (user_id alice)
       example_salt =
     (\<lparr>tracks = [], users = [pre_save key_eks (user_id alice) ''alice'' ''password1'' example_salt]\<rparr>,
      Some (user_id alice), Redirect ''/'') \<and>
   6 \<le> length ''hunter22'' \<and>
   findOne ''alice''
       \<lparr>tracks = [], users = [pre_save key_eks (user_id alice) ''alice'' ''password1'' example_salt]\<rparr> =
     Some (pre_save key_eks (user_id alice) ''alice'' ''password1'' example_salt) \<and>
   post_register key_eks
       \<lparr>tracks = [], users = [pre_save key_eks (user_id alice) ''alice'' ''password1'' example_salt]\<rparr>
       None (Some ''alice'') (Some ''hunter22'') (user_id bob) example_salt =
     (\<lparr>tracks = [], users = [pre_save key_eks (user_id alice) ''alice'' ''password1'' example_salt]\<rparr>,
      None, Render_register ''That username is already taken. Please try another.'')"
proof -
  have h1: "post_register key_eks empty_db None (Some ''alice'') (Some ''password1'')
       (user_id alice) example_salt =
     (\<lparr>tracks = [], users = [pre_save key_eks (user_id alice) ''alice'' ''password1'' example_salt]\<rparr>,
      Some (user_id alice), Redirect ''/'')"
    by (simp add: post_register_def truthy_def save_user_def empty_db_def)
  have h2: "6 \<le> length ''hunter22''" by simp
  from register_same_username_twice [OF h1 h2, of None "user_id bob" example_salt] h1 h2
  show ?thesis
    by blast
qed

section \<open>Favorites\<close>

lemma findById_user_id: "findById uid s = Some u \<Longrightarrow> user_id u = uid"
  by (auto simp: findById_def find_Some_iff)

lemma findById_updateOne:
  assumes "findById uid s = Some u" and "user_id (f u) = uid"
  shows "findById uid (s\<lparr>users := updateOne uid f (users s)\<rparr>) = Some (f u)"
  using assms by (simp add: findById_def find_updateOne)

lemma findTrack_users_update: "findTrack i (s\<lparr>users := us\<rparr>) = findTrack i s"
  by (simp add: findTrack_def)

lemma populate_count:
  "length (filter (\<lambda>x. track_id x = t) (populate favs s)) =
     (case findTrack t s of None \<Rightarrow> 0 | Some x \<Rightarrow> count_list favs t)"
proof (induction favs)
  case Nil
  show ?case by (simp add: populate_Nil split: option.split)
next
  case (Cons a favs)
  show ?case
  proof (cases "findTrack a s")
    case None
    with Cons show ?thesis by (auto simp: populate_Cons split: option.splits)
  next
    case (Some x)
    then have "track_id x = a" using findTrack_Some by blast
    with Some Cons show ?thesis by (auto simp: populate_Cons split: option.splits)
  qed
qed

lemma count_list_distinct: "distinct xs \<Longrightarrow> x \<in> set xs \<Longrightarrow> count_list xs x = 1"
  by (induction xs) (auto simp: count_list_0_iff)

lemma count_list_append: "count_list (xs @ ys) x = count_list xs x + count_list ys x"
  by (induction xs) auto

lemma count_addToSet: "distinct favs \<Longrightarrow> count_list (addToSet t favs) t = 1"
  by (simp add: addToSet_def count_list_distinct count_list_append count_list_0_iff)

text \<open>
  C4. Adding a favorite twice lists it once. A user \<open>u\<close> whose \<^verbatim>\<open>favorites\<close> array has no
  duplicates posts \<^verbatim>\<open>/favorite/:id\<close> twice for the id \<open>t\<close> of a track of the store. Both
  requests redirect to \<^verbatim>\<open>/favorites\<close>, the second changes nothing, the array holds \<open>t\<close>
  once, and the tracks that \<^verbatim>\<open>GET /favorites\<close> renders have one track with id \<open>t\<close>.
\<close>

theorem favorite_twice_listed_once:
  assumes "castId p = Some t"
    and "findTrack t s = Some tr"
    and "findById uid s = Some u"
    and "distinct (favorites u)"
    and "post_favorite castId s (Some uid) p = (s1, r1)"
    and "post_favorite castId s1 (Some uid) p = (s2, r2)"
  shows "r1 = Redirect ''/favorites'' \<and> r2 = Redirect ''/favorites'' \<and> s2 = s1 \<and>
         get_favorites s2 (Some uid) =
           (s2, Render_favorites (u\<lparr>favorites := addToSet t (favorites u)\<rparr>)
                  (populate (addToSet t (favorites u)) s2)) \<and>
         count_list (addToSet t (favorites u)) t = 1 \<and>
         length (filter (\<lambda>x. track_id x = t) (populate (addToSet t (favorites u)) s2)) = 1"
proof -
  let ?f = "\<lambda>u. u\<lparr>favorites := addToSet t (favorites u)\<rparr>"
  from assms(1,5) have s1: "s1 = s\<lparr>users := updateOne uid ?f (users s)\<rparr>"
    and r1: "r1 = Redirect ''/favorites''"
    by (simp_all add: post_favorite_ok)
  from assms(1,6) have s2: "s2 = s1\<lparr>users := updateOne uid ?f (users s1)\<rparr>"
    and r2: "r2 = Redirect ''/favorites''"
    by (simp_all add: post_favorite_ok)
  have found1: "findById uid s1 = Some (?f u)"
    unfolding s1 using assms(3) findById_user_id [OF assms(3)] by (simp add: findById_updateOne)
  have "?f (?f u) = ?f u"
    by (simp add: addToSet_twice)
  with found1 have "updateOne uid ?f (users s1) = users s1"
    by (simp add: findById_def updateOne_same)
  then have same: "s2 = s1"
    by (simp add: s2)
  have tr: "findTrack t s1 = Some tr"
    by (simp add: s1 findTrack_users_update assms(2))
  have once: "count_list (addToSet t (favorites u)) t = 1"
    using assms(4) by (rule count_addToSet)
  have listed: "length (filter (\<lambda>x. track_id x = t) (populate (addToSet t (favorites u)) s1)) = 1"
    using once by (simp add: populate_count tr)
  have "get_favorites s1 (Some uid) =
          (s1, Render_favorites (?f u) (populate (addToSet t (favorites u)) s1))"
    using get_favorites_found [OF found1] by simp
  with once listed same r1 r2 show ?thesis
    by simp
qed

text \<open>Bob has the first seed track among his favorites and adds the second one twice.\<close>

theorem favorite_twice_listed_once_witness:
  "hexObjectId rain_param = Some (track_id rain) \<and>
   findTrack (track_id rain) example_db = Some rain \<and>
   findById (user_id bob) example_db = Some bob \<and>
   distinct (favorites bob) \<and>
   post_favorite hexObjectId example_db (Some (user_id bob)) rain_param =
     (example_db\<lparr>users := [alice, bob\<lparr>favorites := [track_id tibetan, track_id rain]\<rparr>]\<rparr>,
      Redirect ''/favorites'') \<and>
   post_favorite hexObjectId
       (example_db\<lparr>users := [alice, bob\<lparr>favorites := [track_id tibetan, track_id rain]\<rparr>]\<rparr>)
       (Some (user_id bob)) rain_param =
     (example_db\<lparr>users := [alice, bob\<lparr>favorites := [track_id tibetan, track_id rain]\<rparr>]\<rparr>,
      Redirect ''/favorites'') \<and>
   count_list (addToSet (track_id rain) (favorites bob)) (track_id rain) = 1 \<and>
   length (filter (\<lambda>x. track_id x = track_id rain)
      (populate (addToSet (track_id rain) (favorites bob))
         (example_db\<lparr>users := [alice, bob\<lparr>favorites := [track_id tibetan, track_id rain]\<rparr>]\<rparr>))) = 1"
proof -
  have h1: "hexObjectId rain_param = Some (track_id rain)"
    by (simp add: cast_rain rain_def)
  have h2: "findTrack (track_id rain) example_db = Some rain"
    by (simp add: findTrack_def example_db_def tibetan_def rain_def)
  have h3: "findById (user_id bob) example_db = Some bob"
    by (simp add: findById_def example_db_def alice_def bob_def)
  have h4: "distinct (favorites bob)"
    by (simp add: bob_def)
  have h5: "post_favorite hexObjectId example_db (Some (user_id bob)) rain_param =
     (example_db\<lparr>users := [alice, bob\<lparr>favorites := [track_id tibetan, track_id rain]\<rparr>]\<rparr>,
      Redirect ''/favorites'')"
    by (simp add: post_favorite_ok [of hexObjectId, OF h1] example_db_def alice_def bob_def
          addToSet_def tibetan_def rain_def)
  have h6: "post_favorite hexObjectId
       (example_db\<lparr>users := [alice, bob\<lparr>favorites := [track_id tibetan, track_id rain]\<rparr>]\<rparr>)
       (Some (user_id bob)) rain_param =
     (example_db\<lparr>users := [alice, bob\<lparr>favorites := [track_id tibetan, track_id rain]\<rparr>]\<rparr>,
      Redirect ''/favorites'')"
    by (simp add: post_favorite_ok [of hexObjectId, OF h1] example_db_def alice_def bob_def
          addToSet_def tibetan_def rain_def)
  from favorite_twice_listed_once [of hexObjectId, OF h1 h2 h3 h4 h5 h6] h1 h2 h3 h4 h5 h6 show ?thesis
    by blast
qed

text \<open>
  C5. Removing a track that is not among the user's favorites is a no-op. When the id \<open>t\<close>
  is not in the \<^verbatim>\<open>favorites\<close> array of the user \<open>u\<close>, \<^verbatim>\<open>POST /unfavorite/:id\<close> redirects to
  \<^verbatim>\<open>/favorites\<close> as after any removal, the database is unchanged, and \<^verbatim>\<open>GET /favorites\<close>
  answers what it answered before.
\<close>

theorem unfavorite_absent_is_noop:
  assumes "castId p = Some t"
    and "findById uid s = Some u"
    and "t \<notin> set (favorites u)"
  shows "post_unfavorite castId s (Some uid) p = (s, Redirect ''/favorites'') \<and>
         get_favorites (fst (post_unfavorite castId s (Some uid) p)) (Some uid) =
           get_favorites s (Some uid)"
proof -
  have "u\<lparr>favorites := pull t (favorites u)\<rparr> = u"
    using assms(3) by (simp add: pull_id)
  with assms(2) have "updateOne uid (\<lambda>u. u\<lparr>favorites := pull t (favorites u)\<rparr>) (users s) = users s"
    by (simp add: findById_def updateOne_same)
  with assms(1) show ?thesis
    by (simp add: post_unfavorite_ok)
qed

text \<open>Bob, who never added the second seed track, removes it.\<close>

theorem unfavorite_absent_is_noop_witness:
  "hexObjectId rain_param = Some (track_id rain) \<and>
   findById (user_id bob) example_db = Some bob \<and>
   track_id rain \<notin> set (favorites bob) \<and>
   post_unfavorite hexObjectId example_db (Some (user_id bob)) rain_param =
     (example_db, Redirect ''/favorites'')"
proof -
  have h1: "hexObjectId rain_param = Some (track_id rain)"
    by (simp add: cast_rain rain_def)
  have h2: "findById (user_id bob) example_db = Some bob"
    by (simp add: findById_def example_db_def alice_def bob_def)
  have h3: "track_id rain \<notin> set (favorites bob)"
    by (simp add: bob_def rain_def)
  from unfavorite_absent_is_noop [of hexObjectId, OF h1 h2 h3] h1 h2 h3 show ?thesis
    by blast
qed

section \<open>Deleting a track that is not there\<close>

text \<open>
  C6, as stated: deleting an id that names no track fails, and the failure is shown to the
  caller. It does not: no track of the example database has the id ending in \<open>ff\<close>, and
  Alice's request to delete it gets the redirect to \<^verbatim>\<open>/browse\<close> that a deletion gets.
\<close>

theorem delete_absent_track_counterexample:
  "hexObjectId absent_param = Some 0x650000000000000000000aff \<and>
   findTrack 0x650000000000000000000aff example_db = None \<and>
   post_delete hexObjectId example_db (Some (user_id alice)) absent_param =
     (example_db, Redirect ''/browse'')"
proof -
  have "findTrack 0x650000000000000000000aff example_db = None"
    by (simp add: findTrack_def example_db_def tibetan_def rain_def)
  moreover have "post_delete hexObjectId example_db (Some (user_id alice)) absent_param =
     (example_db, Redirect ''/browse'')"
    by (simp add: post_delete_ok [of hexObjectId, OF cast_absent] example_db_def tibetan_def
          rain_def pull_def alice_def bob_def)
  ultimately show ?thesis
    by (simp add: cast_absent)
qed

text \<open>
  C6, amended. For every well-formed id that names no track of the store,
  \<^verbatim>\<open>POST /delete/:id\<close> of a logged-in user does not fail: it answers with the redirect to
  \<^verbatim>\<open>/browse\<close>, as after a deletion; the tracks are unchanged, and the id is still pulled
  from every user's favorites.
\<close>

theorem delete_absent_track_succeeds:
  assumes "castId p = Some t"
    and "findTrack t s = None"
  shows "post_delete castId s (Some v) p =
           (s\<lparr>users := map (\<lambda>u. u\<lparr>favorites := pull t (favorites u)\<rparr>) (users s)\<rparr>,
            Redirect ''/browse'') \<and>
         find_all (fst (post_delete castId s (Some v) p)) = find_all s"
proof -
  from assms(2) have "deleteOne t (tracks s) = tracks s"
    by (simp add: findTrack_def find_track_None deleteOne_absent)
  with assms(1) show ?thesis
    by (simp add: post_delete_ok find_all_def)
qed

theorem delete_absent_track_succeeds_witness:
  "hexObjectId absent_param = Some 0x650000000000000000000aff \<and>
   findTrack 0x650000000000000000000aff example_db = None \<and>
   post_delete hexObjectId example_db (Some (user_id bob)) absent_param =
     (example_db\<lparr>users := map (\<lambda>u. u\<lparr>favorites := pull 0x650000000000000000000aff (favorites u)\<rparr>)
                               (users example_db)\<rparr>,
      Redirect ''/browse'') \<and>
   find_all (fst (post_delete hexObjectId example_db (Some (user_id bob)) absent_param)) =
     find_all example_db"
proof -
  have h2: "findTrack 0x650000000000000000000aff example_db = None"
    by (simp add: findTrack_def example_db_def tibetan_def rain_def)
  from delete_absent_track_succeeds [of hexObjectId, OF cast_absent h2] cast_absent h2
  show ?thesis
    by blast
qed

section \<open>Adding a track\<close>

text \<open>What the route does with a form that it rejects: the name is missing or empty, or
  the embed URL is there and does not contain \<^verbatim>\<open>youtube.com/embed/\<close>.\<close>

lemma post_add_invalid:
  assumes "\<not> truthy (form_name body) \<or>
           (\<exists>e. form_embedUrl body = Some e \<and> \<not> str_includes e ''youtube.com/embed/'')"
  shows "post_add s (Some uid) body newId now =
           (s, Redirect (''/?error='' @ encodeURIComponent invalidTrackDetails))"
  using assms by (auto simp: post_add_def isAuthenticated_def invalid_details_def)

lemma invalidTrackDetails_encoded:
  "encodeURIComponent invalidTrackDetails =
     ''Invalid%20track%20details%3A%20Name%20is%20required%2C%20and%20URL%20must%20be%20a%20YouTube%20embed%20link.''"
  by (simp add: encodeURIComponent_def invalidTrackDetails_def unreserved_def utf8_def hexDigit_def)

text \<open>What it does with a form that has a name and no embed URL field.\<close>

lemma post_add_undefined_embedUrl:
  assumes "truthy (form_name body)" and "form_embedUrl body = None"
  shows "post_add s (Some uid) body newId now =
           (s, Send 500 ''Error adding track. Check server logs.'')"
  using assms by (simp add: post_add_def isAuthenticated_def invalid_details_def)

text \<open>And with a form that passes the check: the track is stored, with the defaults for a
  missing artist and genre.\<close>

lemma post_add_valid:
  assumes "form_name body = Some n" and "n \<noteq> []"
    and "form_embedUrl body = Some e" and "str_includes e ''youtube.com/embed/''"
    and "newId \<notin> track_id ` set (tracks s)"
  shows "post_add s (Some uid) body newId now =
           (s\<lparr>tracks := tracks s @
                [\<lparr>track_id = newId, name = n,
                  artist = Some (orElse (form_artist body) ''User Contributed''),
                  genre = Some (orElse (form_genre body) ''Unknown Palate Cleanser''),
                  embedUrl = e, createdAt = now\<rparr>]\<rparr>,
            Redirect ''/'')"
proof -
  from assms(3,4) have "e \<noteq> []" by auto
  with assms show ?thesis
    by (simp add: post_add_def isAuthenticated_def invalid_details_def truthy_def save_track_def)
qed

text \<open>
  C7. A form with a name and no embed URL at all is invalid input, and the claim is that
  invalid input is answered with the error message for the user, never with a server error.
  For this form the route reads \<^verbatim>\<open>embedUrl.includes\<close> of \<^verbatim>\<open>undefined\<close>; the \<^verbatim>\<open>TypeError\<close> is
  caught, and the answer is status 500.
\<close>

theorem add_track_without_embedUrl:
  "post_add example_db (Some (user_id alice))
     \<lparr>form_name = Some ''Ocean Waves'', form_artist = None, form_genre = None,
      form_embedUrl = None\<rparr>
     0x650000000000000000000a03 1700000000000 =
   (example_db, Send 500 ''Error adding track. Check server logs.'')"
  by (simp add: post_add_undefined_embedUrl truthy_def)

section \<open>The randomizer\<close>

text \<open>
  C8. With no track in the store, \<^verbatim>\<open>GET /\<close> renders the index view with no track
  (\<^verbatim>\<open>track\<close> is \<^verbatim>\<open>undefined\<close>) and a count of 0: it does not fail and it hands the view no
  track record.
\<close>

theorem random_track_of_empty_store:
  assumes "tracks s = []"
  shows "get_index s sess queryError r =
           (s, Render_index None (case sess of None \<Rightarrow> None | Some uid \<Rightarrow> findById uid s) 0
                 (orElse queryError []))"
  using assms by (simp add: get_index_def sample_def)

theorem random_track_of_empty_store_witness:
  "tracks empty_db = [] \<and>
   get_index empty_db None None 7 = (empty_db, Render_index None None 0 [])"
proof -
  have h: "tracks empty_db = []"
    by (simp add: empty_db_def)
  from random_track_of_empty_store [OF h, of None None 7] h show ?thesis
    by (simp add: orElse_def)
qed

text \<open>With tracks in the store, the track handed to the view is one of them.\<close>

lemma random_track_of_store:
  assumes "tracks s \<noteq> []"
  shows "\<exists>t \<in> set (tracks s). get_index s sess queryError r =
           (s, Render_index (Some t) (case sess of None \<Rightarrow> None | Some uid \<Rightarrow> findById uid s)
                 (length (tracks s)) (orElse queryError []))"
  using assms by (auto simp: get_index_def sample_def)

section \<open>Sessions and their lifetime\<close>

lemma start_session_stored:
  assumes "start_session st cookie newSid t0 u = (st1, token, r)"
  shows "st1 token = Some \<lparr>session_userId = Some u, expires = t0 + maxAge\<rparr>"
  using assms
  by (auto simp: start_session_def session_middleware_def Let_def split: option.splits)

lemma resolve_session_alive:
  assumes "st token = Some d" and "now < expires d"
  shows "resolve_session st (Some token) newSid now =
           (st(token \<mapsto> \<lparr>session_userId = session_userId d, expires = now + maxAge\<rparr>), token,
            session_userId d)"
  using assms
  by (simp add: resolve_session_def session_middleware_def store_get_def)

lemma resolve_session_expired:
  assumes "st token = Some d" and "expires d \<le> now"
  shows "resolve_session st (Some token) newSid now = (st, newSid, None)"
  using assms
  by (simp add: resolve_session_def session_middleware_def store_get_def)

lemma resolve_session_unknown:
  assumes "st token = None"
  shows "resolve_session st (Some token) newSid now = (st, newSid, None)"
  using assms
  by (simp add: resolve_session_def session_middleware_def store_get_def)

lemma post_logout_alive:
  assumes "st token = Some d" and "now < expires d"
  shows "post_logout st (Some token) newSid now = (st(token := None), Redirect ''/login'')"
  using assms by (simp add: post_logout_def store_get_def store_destroy_def)

text \<open>What \<^verbatim>\<open>isAuthenticated\<close> makes of the session: without a \<^verbatim>\<open>userId\<close> the guarded route
  redirects to \<^verbatim>\<open>/login\<close>, with one it runs.\<close>

lemma guarded_unauthenticated:
  assumes "resolve_session st cookie newSid now = (st', sid, None)"
  shows "guarded st cookie newSid now s handler = (st', sid, s, Redirect ''/login'')"
  using assms
  by (auto simp: resolve_session_def guarded_def session_middleware_def isAuthenticated_def Let_def
           split: option.splits if_splits)

lemma guarded_authenticated:
  assumes "resolve_session st cookie newSid now = (st', sid, Some uid)"
  shows "guarded st cookie newSid now s handler = (st', sid, handler uid)"
  using assms
  by (auto simp: resolve_session_def guarded_def session_middleware_def isAuthenticated_def Let_def
           split: option.splits if_splits)

text \<open>A login that succeeds starts the session of the user it found.\<close>

lemma login_request_starts_session:
  assumes "findOne uname s = Some u" and "comparePassword eks u pw = Inr True"
  shows "login_request eks st cookie newSid now s uname pw =
           (fst (start_session st cookie newSid now (user_id u)),
            fst (snd (start_session st cookie newSid now (user_id u))), s, Redirect ''/'')"
  using assms
  by (simp add: login_request_def start_session_def session_middleware_def post_login_def Let_def
           split: option.splits prod.splits)

text \<open>While the client comes back before its session expires, the session stays, and
  expires \<^verbatim>\<open>maxAge\<close> after the last request.\<close>

lemma requests_stored:
  assumes "st token = Some \<lparr>session_userId = Some u, expires = t0 + maxAge\<rparr>"
    and "within_idle t0 (map snd rs)"
  shows "requests st token rs token =
           Some \<lparr>session_userId = Some u, expires = last (t0 # map snd rs) + maxAge\<rparr>"
  using assms
proof (induction rs arbitrary: st t0)
  case Nil
  then show ?case by simp
next
  case (Cons a rs)
  obtain n t where a: "a = (n, t)" by (cases a)
  from Cons.prems(2) a have t: "t < t0 + maxAge" and rest: "within_idle t (map snd rs)"
    by simp_all
  let ?st = "st(token \<mapsto> \<lparr>session_userId = Some u, expires = t + maxAge\<rparr>)"
  from Cons.prems(1) t have step: "fst (resolve_session st (Some token) n t) = ?st"
    by (simp add: resolve_session_alive)
  have "?st token = Some \<lparr>session_userId = Some u, expires = t + maxAge\<rparr>"
    by simp
  then have ih: "requests ?st token rs token =
      Some \<lparr>session_userId = Some u, expires = last (t # map snd rs) + maxAge\<rparr>"
    using rest by (rule Cons.IH)
  have unfold: "requests st token (a # rs) = requests ?st token rs"
    unfolding a requests.simps step ..
  have "last (t0 # map snd (a # rs)) = last (t # map snd rs)"
    by (simp add: a)
  with ih unfold show ?case
    by (simp only:)
qed

text \<open>
  C9, as stated: a session resolves to its user at every point before 24 hours have passed
  since it was created, and is unauthenticated at every point after. The second half fails
  for a session that is in use. Alice logs in at time 0 and sends a request after 23 hours;
  her request after 25 hours, more than \<^verbatim>\<open>maxAge\<close> after the session was created, still
  resolves to her.
\<close>

theorem session_outlives_a_day_counterexample:
  "maxAge \<le> 90000000 \<and>
   snd (snd (resolve_session
      (fst (resolve_session (fst (start_session Map.empty None ''s1'' 0 (user_id alice)))
              (Some ''s1'') ''s2'' 82800000))
      (Some ''s1'') ''s3'' 90000000)) = Some (user_id alice)"
  by (simp add: maxAge_def start_session_def resolve_session_def session_middleware_def
        store_get_def)

text \<open>
  C9, amended. For every session created by a login at time \<open>t0\<close> and then used by any
  number of requests, each less than 24 hours after the one before it (the first less than
  24 hours after \<open>t0\<close>): a further request with the token resolves to the user when it comes
  less than 24 hours after the last of them (after \<open>t0\<close>, if there were none), and is
  unauthenticated from then on. A logout while the session is alive redirects to
  \<^verbatim>\<open>/login\<close>, and the token is unauthenticated at every time after it.
\<close>

theorem session_resolves_until_idle_for_a_day:
  assumes "start_session st cookie newSid t0 u = (st1, token, r)"
    and "within_idle t0 (map snd rs)"
  shows "snd (snd (resolve_session (requests st1 token rs) (Some token) n t)) =
           (if t < last (t0 # map snd rs) + maxAge then Some u else None) \<and>
         (t < last (t0 # map snd rs) + maxAge \<longrightarrow>
            snd (post_logout (requests st1 token rs) (Some token) n t) = Redirect ''/login'' \<and>
            snd (snd (resolve_session (fst (post_logout (requests st1 token rs) (Some token) n t))
                        (Some token) n' t')) = None)"
proof -
  let ?d = "\<lparr>session_userId = Some u, expires = last (t0 # map snd rs) + maxAge\<rparr>"
  have stored: "requests st1 token rs token = Some ?d"
    using start_session_stored [OF assms(1)] assms(2) by (rule requests_stored)
  have resolved: "snd (snd (resolve_session (requests st1 token rs) (Some token) n t)) =
           (if t < last (t0 # map snd rs) + maxAge then Some u else None)"
    using stored by (simp add: resolve_session_alive resolve_session_expired)
  have "snd (post_logout (requests st1 token rs) (Some token) n t) = Redirect ''/login'' \<and>
        snd (snd (resolve_session (fst (post_logout (requests st1 token rs) (Some token) n t))
                    (Some token) n' t')) = None"
    if "t < last (t0 # map snd rs) + maxAge"
    using stored that by (simp add: post_logout_alive resolve_session_unknown)
  with resolved show ?thesis by blast
qed

text \<open>Alice logs in at time 0 and sends a request after 23 hours. After 25 hours her token
  still resolves, and a logout at that time ends the session. Had she sent nothing in
  between, the token would not resolve after 24 hours.\<close>

theorem session_resolves_until_idle_for_a_day_witness:
  "start_session Map.empty None ''s1'' 0 (user_id alice) =
     (Map.empty(''s1'' \<mapsto> \<lparr>session_userId = Some (user_id alice), expires = maxAge\<rparr>), ''s1'', ()) \<and>
   within_idle 0 (map snd [(''s2'', 82800000)]) \<and>
   90000000 < last (0 # map snd [(''s2'', 82800000)]) + maxAge \<and>
   snd (snd (resolve_session
      (requests (Map.empty(''s1'' \<mapsto> \<lparr>session_userId = Some (user_id alice), expires = maxAge\<rparr>))
         ''s1'' [(''s2'', 82800000)])
      (Some ''s1'') ''s3'' 90000000)) = Some (user_id alice) \<and>
   snd (snd (resolve_session
      (fst (post_logout
         (requests (Map.empty(''s1'' \<mapsto> \<lparr>session_userId = Some (user_id alice), expires = maxAge\<rparr>))
            ''s1'' [(''s2'', 82800000)])
         (Some ''s1'') ''s3'' 90000000))
      (Some ''s1'') ''s4'' 90000001)) = None \<and>
   snd (snd (resolve_session
      (requests (Map.empty(''s1'' \<mapsto> \<lparr>session_userId = Some (user_id alice), expires = maxAge\<rparr>))
         ''s1'' [])
      (Some ''s1'') ''s2'' 86400000)) = None"
proof -
  let ?st1 = "Map.empty(''s1'' \<mapsto> \<lparr>session_userId = Some (user_id alice), expires = maxAge\<rparr>)"
  have h1: "start_session Map.empty None ''s1'' 0 (user_id alice) = (?st1, ''s1'', ())"
    by (simp add: start_session_def session_middleware_def)
  have h2: "within_idle 0 (map snd [(''s2'', 82800000)])"
    by (simp add: maxAge_def)
  have h3: "within_idle 0 (map snd ([] :: (string \<times> nat) list))"
    by simp
  have h4: "90000000 < last (0 # map snd [(''s2'', 82800000 :: nat)]) + maxAge"
    by (simp add: maxAge_def)
  from session_resolves_until_idle_for_a_day [OF h1 h2, of "''s3''" 90000000 "''s4''" 90000001]
    session_resolves_until_idle_for_a_day [OF h1 h3, of "''s2''" 86400000]
    h1 h2 h4
  show ?thesis
    by (simp add: maxAge_def)
qed

section \<open>A favorite that names no track\<close>

text \<open>
  C10. \<^verbatim>\<open>POST /favorite/:id\<close> does not look the track up. For a logged-in user \<open>u\<close> and a
  well-formed id \<open>t\<close>, whether or not the store has a track with that id, the route
  redirects to \<^verbatim>\<open>/favorites\<close>, the tracks are untouched, and \<open>t\<close> is in the user's
  \<^verbatim>\<open>favorites\<close> array afterwards. When \<open>t\<close> names no track, the entry dangles: the store
  still has no such track, and \<^verbatim>\<open>GET /favorites\<close> renders the user's tracks without it.
\<close>

theorem favorite_without_existence_check:
  assumes "castId p = Some t"
    and "findById uid s = Some u"
    and "post_favorite castId s (Some uid) p = (s', r)"
  shows "r = Redirect ''/favorites'' \<and> find_all s' = find_all s \<and>
         findById uid s' = Some (u\<lparr>favorites := addToSet t (favorites u)\<rparr>) \<and>
         t \<in> set (addToSet t (favorites u)) \<and>
         get_favorites s' (Some uid) =
           (s', Render_favorites (u\<lparr>favorites := addToSet t (favorites u)\<rparr>)
                  (populate (addToSet t (favorites u)) s')) \<and>
         (findTrack t s = None \<longrightarrow>
            findTrack t s' = None \<and>
            t \<notin> track_id ` set (populate (addToSet t (favorites u)) s'))"
proof -
  let ?f = "\<lambda>u. u\<lparr>favorites := addToSet t (favorites u)\<rparr>"
  from assms(1,3) have s': "s' = s\<lparr>users := updateOne uid ?f (users s)\<rparr>"
    and r: "r = Redirect ''/favorites''"
    by (simp_all add: post_favorite_ok)
  have found: "findById uid s' = Some (?f u)"
    unfolding s' using assms(2) findById_user_id [OF assms(2)] by (simp add: findById_updateOne)
  have same: "find_all s' = find_all s"
    by (simp add: s' find_all_def)
  have dangling: "findTrack t s' = None \<and>
      t \<notin> track_id ` set (populate (addToSet t (favorites u)) s')" if "findTrack t s = None"
  proof -
    from that have none: "findTrack t s' = None"
      by (simp add: s' findTrack_users_update)
    then have "t \<notin> track_id ` set (tracks s')"
      by (simp add: findTrack_def find_track_None)
    then have "t \<notin> track_id ` set (populate (addToSet t (favorites u)) s')"
      using populate_ids [of "addToSet t (favorites u)" s'] by blast
    with none show ?thesis by simp
  qed
  have "get_favorites s' (Some uid) =
          (s', Render_favorites (?f u) (populate (addToSet t (favorites u)) s'))"
    using get_favorites_found [OF found] by simp
  with found dangling r same show ?thesis
    by (simp add: addToSet_member)
qed

text \<open>Bob adds the id ending in \<open>ff\<close>, which names no track; his favorites page shows the
  first seed track only.\<close>

theorem favorite_without_existence_check_witness:
  "hexObjectId absent_param = Some 0x650000000000000000000aff \<and>
   findTrack 0x650000000000000000000aff example_db = None \<and>
   findById (user_id bob) example_db = Some bob \<and>
   post_favorite hexObjectId example_db (Some (user_id bob)) absent_param =
     (example_db\<lparr>users := [alice, bob\<lparr>favorites := [track_id tibetan, 0x650000000000000000000aff]\<rparr>]\<rparr>,
      Redirect ''/favorites'') \<and>
   get_favorites
       (example_db\<lparr>users := [alice, bob\<lparr>favorites := [track_id tibetan, 0x650000000000000000000aff]\<rparr>]\<rparr>)
       (Some (user_id bob)) =
     (example_db\<lparr>users := [alice, bob\<lparr>favorites := [track_id tibetan, 0x650000000000000000000aff]\<rparr>]\<rparr>,
      Render_favorites (bob\<lparr>favorites := [track_id tibetan, 0x650000000000000000000aff]\<rparr>) [tibetan])"
proof -
  have h2: "findTrack 0x650000000000000000000aff example_db = None"
    by (simp add: findTrack_def example_db_def tibetan_def rain_def)
  have h3: "findById (user_id bob) example_db = Some bob"
    by (simp add: findById_def example_db_def alice_def bob_def)
  have h4: "post_favorite hexObjectId example_db (Some (user_id bob)) absent_param =
     (example_db\<lparr>users := [alice, bob\<lparr>favorites := [track_id tibetan, 0x650000000000000000000aff]\<rparr>]\<rparr>,
      Redirect ''/favorites'')"
    by (simp add: post_favorite_ok [of hexObjectId, OF cast_absent] example_db_def alice_def
          bob_def addToSet_def tibetan_def)
  have fav: "addToSet 0x650000000000000000000aff (favorites bob) =
               [track_id tibetan, 0x650000000000000000000aff]"
    by (simp add: addToSet_def bob_def tibetan_def)
  have pop: "populate [track_id tibetan, 0x650000000000000000000aff]
               (example_db\<lparr>users := [alice, bob\<lparr>favorites := [track_id tibetan, 0x650000000000000000000aff]\<rparr>]\<rparr>) =
             [tibetan]"
    by (simp add: populate_Cons populate_Nil findTrack_def example_db_def tibetan_def rain_def)
  from favorite_without_existence_check [of hexObjectId, OF cast_absent h3 h4]
    cast_absent h2 h3 h4
  show ?thesis
    by (simp add: fav pop)
qed

section \<open>What the routes preserve\<close>

text \<open>The theorems above take a database in which track ids are unique and no favorites
  array holds an id twice. The routes keep both: ids stay unique through \<^verbatim>\<open>POST /add\<close> and
  \<^verbatim>\<open>POST /delete/:id\<close>, and favorites stay free of duplicates through every route that
  writes users.\<close>

lemma post_add_ids_unique:
  assumes "distinct (map track_id (tracks s))"
  shows "distinct (map track_id (tracks (fst (post_add s sess body newId now))))"
  using assms
  by (auto simp: post_add_def isAuthenticated_def save_track_def Let_def
           split: option.splits sum.splits bool.splits)

lemma post_delete_ids_unique:
  assumes "distinct (map track_id (tracks s))"
  shows "distinct (map track_id (tracks (fst (post_delete castId s sess p))))"
  using assms
  by (auto simp: post_delete_def isAuthenticated_def findByIdAndDelete_def updateMany_pull_def
                 deleteOne_distinct
           split: option.splits)

lemma updateOne_set: "set (updateOne i f us) \<subseteq> set us \<union> f ` set us"
  by (induction us) auto

lemma post_favorite_favorites_distinct:
  assumes "\<forall>u \<in> set (users s). distinct (favorites u)"
  shows "\<forall>u \<in> set (users (fst (post_favorite castId s sess p))). distinct (favorites u)"
proof (cases "sess = None \<or> castId p = None")
  case True
  with assms show ?thesis
    by (auto simp: post_favorite_def isAuthenticated_def findByIdAndUpdate_def
             split: option.splits)
next
  case False
  then obtain uid t where "sess = Some uid" "castId p = Some t" by auto
  then have "users (fst (post_favorite castId s sess p)) =
      updateOne uid (\<lambda>u. u\<lparr>favorites := addToSet t (favorites u)\<rparr>) (users s)"
    by (simp add: post_favorite_ok)
  with assms updateOne_set [of uid "\<lambda>u. u\<lparr>favorites := addToSet t (favorites u)\<rparr>" "users s"]
  show ?thesis
    by (auto simp: addToSet_distinct)
qed

lemma post_unfavorite_favorites_distinct:
  assumes "\<forall>u \<in> set (users s). distinct (favorites u)"
  shows "\<forall>u \<in> set (users (fst (post_unfavorite castId s sess p))). distinct (favorites u)"
proof (cases "sess = None \<or> castId p = None")
  case True
  with assms show ?thesis
    by (auto simp: post_unfavorite_def isAuthenticated_def findByIdAndUpdate_def
             split: option.splits)
next
  case False
  then obtain uid t where "sess = Some uid" "castId p = Some t" by auto
  then have "users (fst (post_unfavorite castId s sess p)) =
      updateOne uid (\<lambda>u. u\<lparr>favorites := pull t (favorites u)\<rparr>) (users s)"
    by (simp add: post_unfavorite_ok)
  with assms updateOne_set [of uid "\<lambda>u. u\<lparr>favorites := pull t (favorites u)\<rparr>" "users s"]
  show ?thesis
    by (auto simp: pull_distinct)
qed

lemma post_delete_favorites_distinct:
  assumes "\<forall>u \<in> set (users s). distinct (favorites u)"
  shows "\<forall>u \<in> set (users (fst (post_delete castId s sess p))). distinct (favorites u)"
  using assms
  by (auto simp: post_delete_def isAuthenticated_def findByIdAndDelete_def updateMany_pull_def
                 pull_distinct
           split: option.splits)

lemma post_register_favorites_distinct:
  assumes "\<forall>u \<in> set (users s). distinct (favorites u)"
  shows "\<forall>u \<in> set (users (fst (post_register eks s sess uname pw newId slt))).
           distinct (favorites u)"
  using assms
  by (auto simp: post_register_def save_user_def pre_save_def Let_def split: sum.splits)

end
